theory Spec2Isabelle
  imports Main
begin

section \<open>Qt geometry used by the list view\<close>

text \<open>
  The C++ \<open>int\<close> has 32 bits, and signed overflow is undefined behaviour: an \<open>int\<close>
  expression whose value leaves the range has no result. \<open>cpp_int\<close> gives the value of
  such an expression, \<open>None\<close> outside the range. It guards every addition of
  \<open>calcScrolledAreaSize\<close>, which adds up the whole collection. The other functions are
  written on \<open>int\<close> without the guard: the theorems about them evaluate them on concrete
  views, where every value is far inside the range, or are about the anchor that a slot
  leaves, where the only arithmetic is \<open>first - 1\<close> for a positive \<open>first\<close>.
\<close>

definition in_int :: "int \<Rightarrow> bool" where
  "in_int x = (- 2147483648 \<le> x \<and> x \<le> 2147483647)"

definition cpp_int :: "int \<Rightarrow> int option" where
  "cpp_int x = (if in_int x then Some x else None)"

text \<open>
  \<open>QRect\<close> stores its corners: \<open>QRect(x, y, w, h)\<close> has the corners \<open>(x, y)\<close> and
  \<open>(x + w - 1, y + h - 1)\<close>; the default rectangle \<open>QRect()\<close> has the corners
  \<open>(0, 0)\<close> and \<open>(-1, -1)\<close>. \<open>isNull\<close>, \<open>contains\<close> and \<open>intersected\<close> follow
  the library's implementation.
\<close>

datatype QRect = QRect (rx1: int) (ry1: int) (rx2: int) (ry2: int)

datatype QPoint = QPoint (px: int) (py: int)

datatype QSize = QSize (size_width: int) (size_height: int)

definition mkRect :: "int \<Rightarrow> int \<Rightarrow> int \<Rightarrow> int \<Rightarrow> QRect" where
  "mkRect x y w h = QRect x y (x + w - 1) (y + h - 1)"

definition nullRect :: QRect where
  "nullRect = QRect 0 0 (- 1) (- 1)"

definition rect_x :: "QRect \<Rightarrow> int" where
  "rect_x r = rx1 r"

definition rect_y :: "QRect \<Rightarrow> int" where
  "rect_y r = ry1 r"

definition rect_width :: "QRect \<Rightarrow> int" where
  "rect_width r = rx2 r - rx1 r + 1"

definition rect_height :: "QRect \<Rightarrow> int" where
  "rect_height r = ry2 r - ry1 r + 1"

definition isNull :: "QRect \<Rightarrow> bool" where
  "isNull r = (rx2 r = rx1 r - 1 \<and> ry2 r = ry1 r - 1)"

definition contains :: "QRect \<Rightarrow> QPoint \<Rightarrow> bool" where
  "contains r p =
     (let l = (if rx2 r < rx1 r - 1 then rx2 r else rx1 r);
          ri = (if rx2 r < rx1 r - 1 then rx1 r else rx2 r);
          t = (if ry2 r < ry1 r - 1 then ry2 r else ry1 r);
          b = (if ry2 r < ry1 r - 1 then ry1 r else ry2 r)
      in \<not> isNull r \<and> \<not> (px p < l \<or> px p > ri) \<and> \<not> (py p < t \<or> py p > b))"

definition intersected :: "QRect \<Rightarrow> QRect \<Rightarrow> QRect" where
  "intersected a b =
     (if isNull a \<or> isNull b then nullRect
      else
        let l1 = (if rx2 a - rx1 a + 1 < 0 then rx2 a else rx1 a);
            r1 = (if rx2 a - rx1 a + 1 < 0 then rx1 a else rx2 a);
            l2 = (if rx2 b - rx1 b + 1 < 0 then rx2 b else rx1 b);
            r2 = (if rx2 b - rx1 b + 1 < 0 then rx1 b else rx2 b)
        in if l1 > r2 \<or> l2 > r1 then nullRect
           else
             let t1 = (if ry2 a - ry1 a + 1 < 0 then ry2 a else ry1 a);
                 b1 = (if ry2 a - ry1 a + 1 < 0 then ry1 a else ry2 a);
                 t2 = (if ry2 b - ry1 b + 1 < 0 then ry2 b else ry1 b);
                 b2 = (if ry2 b - ry1 b + 1 < 0 then ry1 b else ry2 b)
             in if t1 > b2 \<or> t2 > b1 then nullRect
                else QRect (max l1 l2) (max t1 t2) (min r1 r2) (min b1 b2))"

section \<open>The row collection\<close>

text \<open>
  Modelled from the spec: the row collection (\<open>listmodel.hpp\<close> is not among the
  sources). The view uses only \<open>rowCount()\<close> and \<open>heightForWidth(row, width)\<close> of
  its model, the spec's row count and per-row height for a given width. The collection is
  a list of rows, each row given by its height as a function of the width. A query for a
  row outside \<open>[0, rowCount())\<close> has no answer: it is \<open>None\<close>, and so is every
  computation of the view that makes one.
\<close>

type_synonym ListModel = "(int \<Rightarrow> int) list"

definition rowCount :: "ListModel \<Rightarrow> int" where
  "rowCount m = int (length m)"

definition heightForWidth :: "ListModel \<Rightarrow> int \<Rightarrow> int \<Rightarrow> int option" where
  "heightForWidth m row width =
     (if 0 \<le> row \<and> row < rowCount m then Some ((m ! nat row) width) else None)"

text \<open>Rows of fixed height, for concrete collections.\<close>

definition fixedRows :: "int list \<Rightarrow> ListModel" where
  "fixedRows hs = map (\<lambda>h w. h) hs"

text \<open>
  Modelled from the spec: the collection after the rows \<open>first..last\<close> have been taken
  out of it; the range is inclusive and names positions before the removal.
\<close>

definition removeRows :: "ListModel \<Rightarrow> int \<Rightarrow> int \<Rightarrow> ListModel" where
  "removeRows m first last' = take (nat first) m @ drop (nat (last' + 1)) m"

section \<open>The state of the list view\<close>

text \<open>
  \<open>AbstractListViewPrivate\<close>: the model, the spacing (of the base class), the first
  visible row and its offset. The viewport is a widget: its \<open>rect()\<close> is
  \<open>QRect(0, 0, width, height)\<close>.
\<close>

record AbstractListViewPrivate =
  model :: ListModel
  spacing :: int
  firstVisibleRow :: int
  offset :: int
  viewport_width :: int
  viewport_height :: int

definition viewport_rect :: "AbstractListViewPrivate \<Rightarrow> QRect" where
  "viewport_rect d = mkRect 0 0 (viewport_width d) (viewport_height d)"

subsection \<open>maxOffset\<close>

function maxOffset_loop :: "AbstractListViewPrivate \<Rightarrow> int \<Rightarrow> int \<Rightarrow> int \<Rightarrow> int option" where
  "maxOffset_loop d width row y =
     (if y < rect_height (viewport_rect d) \<and> row \<ge> 0 then
        (case heightForWidth (model d) row width of
           None \<Rightarrow> None
         | Some h \<Rightarrow> maxOffset_loop d width (row - 1) (y + (h + spacing d)))
      else Some y)"
  by pat_completeness auto
termination
  by (relation "measure (\<lambda>(d, width, row, y). nat (row + 1))") auto

definition maxOffset :: "AbstractListViewPrivate \<Rightarrow> int option" where
  "maxOffset d =
     (let r = viewport_rect d;
          width = rect_width r - spacing d * 2
      in case maxOffset_loop d width (rowCount (model d) - 1) 0 of
           None \<Rightarrow> None
         | Some y \<Rightarrow> Some (if y > rect_height r then rect_height r - y - 1 else 0))"

subsection \<open>calculateScroll\<close>

function calculateScroll_up :: "AbstractListViewPrivate \<Rightarrow> int \<Rightarrow> int \<Rightarrow> int \<Rightarrow> int \<Rightarrow> int option" where
  "calculateScroll_up d width row tmpRow delta =
     (if tmpRow \<ge> row then
        (case heightForWidth (model d) tmpRow width of
           None \<Rightarrow> None
         | Some h \<Rightarrow> calculateScroll_up d width row (tmpRow - 1) (delta + (spacing d + h)))
      else Some delta)"
  by pat_completeness auto
termination
  by (relation "measure (\<lambda>(d, width, row, tmpRow, delta). nat (tmpRow - row + 1))") auto

function calculateScroll_down :: "AbstractListViewPrivate \<Rightarrow> int \<Rightarrow> int \<Rightarrow> int \<Rightarrow> int \<Rightarrow> int option" where
  "calculateScroll_down d width row tmpRow delta =
     (if tmpRow < row then
        (case heightForWidth (model d) tmpRow width of
           None \<Rightarrow> None
         | Some h \<Rightarrow> calculateScroll_down d width row (tmpRow + 1) (delta - (h + spacing d)))
      else Some delta)"
  by pat_completeness auto
termination
  by (relation "measure (\<lambda>(d, width, row, tmpRow, delta). nat (row - tmpRow))") auto

definition calculateScroll :: "AbstractListViewPrivate \<Rightarrow> int \<Rightarrow> int \<Rightarrow> int option" where
  "calculateScroll d row expectedOffset =
     (let width = viewport_width d - spacing d * 2;
          delta = - offset d + expectedOffset;
          tmpRow = firstVisibleRow d
      in if tmpRow > row then calculateScroll_up d width row (tmpRow - 1) delta
         else if tmpRow < row then calculateScroll_down d width row tmpRow delta
         else Some delta)"

subsection \<open>canScrollDown\<close>

function canScrollDown_loop :: "AbstractListViewPrivate \<Rightarrow> int \<Rightarrow> int \<Rightarrow> int \<Rightarrow> int option" where
  "canScrollDown_loop d width row y =
     (if y < rect_y (viewport_rect d) + rect_height (viewport_rect d)
          \<and> row < rowCount (model d) then
        (case heightForWidth (model d) row width of
           None \<Rightarrow> None
         | Some h \<Rightarrow> canScrollDown_loop d width (row + 1) (y + (h + spacing d)))
      else Some row)"
  by pat_completeness auto
termination
  by (relation "measure (\<lambda>(d, width, row, y). nat (rowCount (model d) - row))") auto

definition canScrollDown :: "AbstractListViewPrivate \<Rightarrow> int \<Rightarrow> bool option" where
  "canScrollDown d row =
     (if row = - 1 then Some False
      else
        let r = viewport_rect d;
            y = rect_y r + spacing d;
            width = rect_width r - spacing d * 2
        in case canScrollDown_loop d width row y of
             None \<Rightarrow> None
           | Some row' \<Rightarrow> Some (row' < rowCount (model d)))"

subsection \<open>normalizeOffset\<close>

text \<open>
  The two loops of \<open>normalizeOffset\<close>. The arguments \<open>row\<close> and \<open>offset\<close> are
  references in the source; the model returns the pair of their final values.
\<close>

function normalizeOffset_up :: "AbstractListViewPrivate \<Rightarrow> int \<Rightarrow> int \<Rightarrow> int \<Rightarrow> (int \<times> int) option" where
  "normalizeOffset_up d width row off =
     (if off > 0 then
        (case heightForWidth (model d) row width of
           None \<Rightarrow> None
         | Some h \<Rightarrow>
             (let delta = h + spacing d;
                  off' = off - delta
              in if row \<noteq> 0 then normalizeOffset_up d width (row - 1) off'
                 else Some (row, 0)))
      else Some (row, off))"
  by pat_completeness auto
termination
  by (relation "measure (\<lambda>(d, width, row, off). nat row)")
     (auto simp: heightForWidth_def split: if_splits)

function normalizeOffset_down :: "AbstractListViewPrivate \<Rightarrow> int \<Rightarrow> int \<Rightarrow> int \<Rightarrow> int \<Rightarrow> (int \<times> int) option" where
  "normalizeOffset_down d width row height off =
     (if \<bar>off\<bar> > height + spacing d then
        (let delta = height + spacing d;
             off' = off + delta
         in if row < rowCount (model d) - 1 then
              (case heightForWidth (model d) (row + 1) width of
                 None \<Rightarrow> None
               | Some h \<Rightarrow> normalizeOffset_down d width (row + 1) h off')
            else Some (row, 0))
      else Some (row, off))"
  by pat_completeness auto
termination
  by (relation "measure (\<lambda>(d, width, row, height, off). nat (rowCount (model d) - row))") auto

definition normalizeOffset :: "AbstractListViewPrivate \<Rightarrow> int \<Rightarrow> int \<Rightarrow> (int \<times> int) option" where
  "normalizeOffset d row off =
     (if off > 0 then
        (if row > 0 then
           normalizeOffset_up d (rect_width (viewport_rect d) - spacing d * 2) row off
         else Some (row, 0))
      else if off < 0 then
        (case canScrollDown d row of
           None \<Rightarrow> None
         | Some True \<Rightarrow>
             (let width = rect_width (viewport_rect d) - spacing d * 2
              in case heightForWidth (model d) row width of
                   None \<Rightarrow> None
                 | Some height \<Rightarrow> normalizeOffset_down d width row height off)
         | Some False \<Rightarrow>
             (case maxOffset d of
                None \<Rightarrow> None
              | Some mx \<Rightarrow> Some (row, if off < mx then mx else off)))
      else Some (row, off))"

text \<open>\<open>scrollContentsBy\<close>: the pan delta is added to the offset, which is then normalized.\<close>

definition scrollContentsBy :: "AbstractListViewPrivate \<Rightarrow> int \<Rightarrow> int \<Rightarrow> AbstractListViewPrivate option" where
  "scrollContentsBy d dx dy =
     (case normalizeOffset d (firstVisibleRow d) (offset d + dy) of
        None \<Rightarrow> None
      | Some (row, off) \<Rightarrow> Some (d\<lparr>firstVisibleRow := row, offset := off\<rparr>))"

subsection \<open>calcScrolledAreaSize\<close>

function calcScrolledAreaSize_loop :: "AbstractListViewPrivate \<Rightarrow> int \<Rightarrow> int \<Rightarrow> int \<Rightarrow> int \<Rightarrow> int option" where
  "calcScrolledAreaSize_loop d rowWidth i last' height =
     (if i < last' then
        (case heightForWidth (model d) i rowWidth of
           None \<Rightarrow> None
         | Some h \<Rightarrow>
             (case cpp_int (h + spacing d) of
                None \<Rightarrow> None
              | Some e \<Rightarrow>
                  (case cpp_int (height + e) of
                     None \<Rightarrow> None
                   | Some height' \<Rightarrow>
                       calcScrolledAreaSize_loop d rowWidth (i + 1) last' height')))
      else Some height)"
  by pat_completeness auto
termination
  by (relation "measure (\<lambda>(d, rowWidth, i, last', height). nat (last' - i))") auto

text \<open>
  The additions of the loop, from the running total \<open>acc\<close> over the terms \<open>xs\<close> (each
  a height plus the spacing): every term and every new total is an \<open>int\<close>.
\<close>

fun sums_in_int :: "int \<Rightarrow> int list \<Rightarrow> bool" where
  "sums_in_int acc [] = True"
| "sums_in_int acc (x # xs) = (in_int x \<and> in_int (acc + x) \<and> sums_in_int (acc + x) xs)"

definition calcScrolledAreaSize :: "AbstractListViewPrivate \<Rightarrow> QSize option" where
  "calcScrolledAreaSize d =
     (let width = rect_width (viewport_rect d)
      in case cpp_int (spacing d * 2) of
           None \<Rightarrow> None
         | Some twice \<Rightarrow>
             (case cpp_int (width - twice) of
                None \<Rightarrow> None
              | Some rowWidth \<Rightarrow>
                  (case calcScrolledAreaSize_loop d rowWidth 0 (rowCount (model d)) (spacing d) of
                     None \<Rightarrow> None
                   | Some height \<Rightarrow> Some (QSize width height))))"

subsection \<open>visualRect and updateIfNeeded\<close>

function visualRect_loop :: "AbstractListViewPrivate \<Rightarrow> int \<Rightarrow> int \<Rightarrow> int \<Rightarrow> int \<Rightarrow> int \<Rightarrow> QRect option" where
  "visualRect_loop d width row tmpRow y height =
     (if tmpRow < row then
        (let y' = y + (height + spacing d)
         in if y' > rect_height (viewport_rect d) then Some nullRect
            else
              (case heightForWidth (model d) (tmpRow + 1) width of
                 None \<Rightarrow> None
               | Some h \<Rightarrow> visualRect_loop d width row (tmpRow + 1) y' h))
      else
        Some (intersected (viewport_rect d)
                (mkRect (rect_x (viewport_rect d) + spacing d) y width height)))"
  by pat_completeness auto
termination
  by (relation "measure (\<lambda>(d, width, row, tmpRow, y, height). nat (row - tmpRow))") auto

definition visualRect :: "AbstractListViewPrivate \<Rightarrow> int \<Rightarrow> QRect option" where
  "visualRect d row =
     (if row \<ge> firstVisibleRow d then
        (let tmpRow = firstVisibleRow d;
             r = viewport_rect d;
             y = rect_y r + offset d;
             width = rect_width r - spacing d * 2
         in case heightForWidth (model d) tmpRow width of
              None \<Rightarrow> None
            | Some height \<Rightarrow> visualRect_loop d width row tmpRow y height)
      else Some nullRect)"

text \<open>
  \<open>updateIfNeeded\<close> answers whether it asked the viewport to repaint.
\<close>

function updateIfNeeded_loop :: "AbstractListViewPrivate \<Rightarrow> int \<Rightarrow> int \<Rightarrow> bool option" where
  "updateIfNeeded_loop d i lastRow =
     (if i \<le> lastRow then
        (case visualRect d i of
           None \<Rightarrow> None
         | Some r \<Rightarrow> if \<not> isNull r then Some True else updateIfNeeded_loop d (i + 1) lastRow)
      else Some False)"
  by pat_completeness auto
termination
  by (relation "measure (\<lambda>(d, i, lastRow). nat (lastRow + 1 - i))") auto

definition updateIfNeeded :: "AbstractListViewPrivate \<Rightarrow> int \<Rightarrow> int \<Rightarrow> bool option" where
  "updateIfNeeded d firstRow lastRow = updateIfNeeded_loop d firstRow lastRow"

subsection \<open>drawListView\<close>

text \<open>
  The viewport's paint: the rows it draws, first to last, each with the rectangle handed to
  \<open>drawRow\<close>. The first row is drawn at \<open>offset + spacing\<close>.
\<close>

function drawListView_loop :: "AbstractListViewPrivate \<Rightarrow> int \<Rightarrow> int \<Rightarrow> (int \<times> QRect) list option" where
  "drawListView_loop d row y =
     (if y < rect_y (viewport_rect d) + rect_height (viewport_rect d)
          \<and> row < rowCount (model d) then
        (let width = rect_width (viewport_rect d) - spacing d * 2
         in case heightForWidth (model d) row width of
              None \<Rightarrow> None
            | Some height \<Rightarrow>
                (case drawListView_loop d (row + 1) (y + (height + spacing d)) of
                   None \<Rightarrow> None
                 | Some drawn \<Rightarrow> Some ((row, mkRect (spacing d) y width height) # drawn)))
      else Some [])"
  by pat_completeness auto
termination
  by (relation "measure (\<lambda>(d, row, y). nat (rowCount (model d) - row))") auto

definition drawListView :: "AbstractListViewPrivate \<Rightarrow> (int \<times> QRect) list option" where
  "drawListView d =
     (if firstVisibleRow d \<ge> 0 then
        drawListView_loop d (firstVisibleRow d) (offset d + spacing d)
      else Some [])"

subsection \<open>rowAt\<close>

text \<open>
  The walk of \<open>rowAt\<close> moves either way, so it is defined as a partial function:
  \<open>None\<close> also stands for a walk that never ends. The source takes the width from a
  rectangle \<open>r\<close> it does not declare; as in \<open>visualRect\<close>, it is the viewport's.
  The answer \<open>-1\<close> is "no row".
\<close>

partial_function (option) rowAt_loop :: "AbstractListViewPrivate \<Rightarrow> QPoint \<Rightarrow> int \<Rightarrow> int \<Rightarrow> int \<Rightarrow> int option" where
  "rowAt_loop d p width row y =
     (if row \<ge> 0 \<and> row < rowCount (model d) then
        (case heightForWidth (model d) row width of
           None \<Rightarrow> None
         | Some height \<Rightarrow>
             if contains (mkRect (spacing d) y width height) p then Some row
             else if \<bar>y\<bar> + height + spacing d > \<bar>py p\<bar> then Some (- 1)
             else rowAt_loop d p width
                    (if py p < y then row - 1 else row + 1)
                    (y + (if py p < y then - (height + spacing d) else height + spacing d)))
      else Some (- 1))"

definition rowAt :: "AbstractListViewPrivate \<Rightarrow> QPoint \<Rightarrow> int option" where
  "rowAt d p =
     (let row = firstVisibleRow d;
          x = spacing d;
          y = offset d;
          width = rect_width (viewport_rect d) - spacing d * 2
      in if px p < x \<or> px p > x + width then Some (- 1)
         else rowAt_loop d p width row y)"

subsection \<open>scrollTo\<close>

datatype ScrollHint = EnsureVisible | PositionAtTop | PositionAtBottom | PositionAtCenter

text \<open>
  What \<open>scrollTo\<close> asks of the scroll area: nothing, or to move the top left point of
  the shown area down by \<open>delta\<close> (\<open>setTopLeftPointShownArea\<close> with \<open>p.y() + delta\<close>).
\<close>

datatype ScrollRequest = NoScroll | MoveShownAreaBy int

text \<open>The division of C++ on \<open>int\<close> rounds towards zero.\<close>

definition cpp_div :: "int \<Rightarrow> int \<Rightarrow> int" where
  "cpp_div a b = sgn a * sgn b * (\<bar>a\<bar> div \<bar>b\<bar>)"

definition scrollTo :: "AbstractListViewPrivate \<Rightarrow> int \<Rightarrow> ScrollHint \<Rightarrow> ScrollRequest option" where
  "scrollTo d row hint =
     (if row \<ge> 0 \<and> row < rowCount (model d) then
        (case hint of
           EnsureVisible \<Rightarrow>
             (case visualRect d row of
                None \<Rightarrow> None
              | Some vr \<Rightarrow>
                  if \<not> isNull vr then Some NoScroll
                  else map_option MoveShownAreaBy (calculateScroll d row (- 1)))
         | PositionAtTop \<Rightarrow> map_option MoveShownAreaBy (calculateScroll d row (- 1))
         | PositionAtBottom \<Rightarrow>
             (let r = viewport_rect d
              in case heightForWidth (model d) row (rect_width r - spacing d * 2) of
                   None \<Rightarrow> None
                 | Some h \<Rightarrow>
                     map_option MoveShownAreaBy
                       (calculateScroll d row (rect_y r + rect_height r - h - spacing d - 1)))
         | PositionAtCenter \<Rightarrow>
             (let r = viewport_rect d
              in case heightForWidth (model d) row (rect_width r - spacing d * 2) of
                   None \<Rightarrow> None
                 | Some h \<Rightarrow>
                     map_option MoveShownAreaBy
                       (calculateScroll d row
                          (rect_y r + cpp_div (rect_height r) 2 - cpp_div h 2))))
      else Some NoScroll)"

text \<open>
  Modelled from the spec: the scrollable surface (\<open>abstractscrollarea.hpp\<close> and its
  implementation are not among the sources). The spec has the planner's delta be "the pixel
  amount the external scrollable surface must move by; applying that delta and re-running
  the Offset Normalizer settles the state": the surface reports the requested delta,
  unchanged, as the realized pan delta to \<open>scrollContentsBy\<close>.
\<close>

definition surface_apply :: "AbstractListViewPrivate \<Rightarrow> ScrollRequest \<Rightarrow> AbstractListViewPrivate option" where
  "surface_apply d req =
     (case req of
        NoScroll \<Rightarrow> Some d
      | MoveShownAreaBy delta \<Rightarrow> scrollContentsBy d 0 delta)"

subsection \<open>The slots for the model's notifications\<close>

text \<open>
  A slot runs when the model has already changed: \<open>model d\<close> is the collection after the
  change. Each slot returns the new state of the view, the size \<open>recalculateSize\<close>
  hands to the scroll area (for the slots that call it), and whether a repaint of the
  viewport was asked for; the last two are \<open>None\<close> when computing them queried a row
  that the model does not have.
\<close>

definition dataChanged :: "AbstractListViewPrivate \<Rightarrow> int \<Rightarrow> int \<Rightarrow> AbstractListViewPrivate \<times> bool option" where
  "dataChanged d first last' = (d, updateIfNeeded d first last')"

definition modelReset :: "AbstractListViewPrivate \<Rightarrow> AbstractListViewPrivate \<times> QSize option \<times> bool option" where
  "modelReset d =
     (let d' = d\<lparr>firstVisibleRow := - 1, offset := 0\<rparr>
      in (d', calcScrolledAreaSize d', Some True))"

definition rowsInserted :: "AbstractListViewPrivate \<Rightarrow> int \<Rightarrow> int \<Rightarrow> AbstractListViewPrivate \<times> QSize option \<times> bool option" where
  "rowsInserted d first last' =
     (let d' = (if firstVisibleRow d = - 1 then d\<lparr>firstVisibleRow := 0\<rparr> else d)
      in (d', calcScrolledAreaSize d', updateIfNeeded d' first last'))"

definition rowsRemoved :: "AbstractListViewPrivate \<Rightarrow> int \<Rightarrow> int \<Rightarrow> AbstractListViewPrivate \<times> QSize option \<times> bool option" where
  "rowsRemoved d first last' =
     (let d' =
        (if firstVisibleRow d \<ge> first \<and> firstVisibleRow d \<le> last' then
           (if rowCount (model d) \<noteq> 0 then
              (if first - 1 \<ge> 0 then d\<lparr>firstVisibleRow := first - 1, offset := 0\<rparr>
               else d\<lparr>firstVisibleRow := last' + 1, offset := 0\<rparr>)
            else d\<lparr>firstVisibleRow := - 1, offset := 0\<rparr>)
         else d)
      in (d', calcScrolledAreaSize d', updateIfNeeded d' first last'))"

definition rowsMoved :: "AbstractListViewPrivate \<Rightarrow> int \<Rightarrow> int \<Rightarrow> int \<Rightarrow> AbstractListViewPrivate \<times> bool option" where
  "rowsMoved d sourceStart sourceEnd destinationRow =
     (let d' =
        (if (firstVisibleRow d \<ge> sourceStart \<and> firstVisibleRow d \<le> sourceEnd) \<or>
            (firstVisibleRow d \<ge> destinationRow
               \<and> firstVisibleRow d \<le> destinationRow + sourceEnd - sourceStart)
         then d\<lparr>offset := 0\<rparr> else d)
      in (d',
          case updateIfNeeded d' sourceStart sourceEnd of
            None \<Rightarrow> None
          | Some True \<Rightarrow> Some True
          | Some False \<Rightarrow>
              updateIfNeeded d' destinationRow (destinationRow + sourceEnd - sourceStart)))"

section \<open>Concrete views and reference definitions\<close>

text \<open>
  The collection of the spec's scenario: three rows of heights 50, 80 and 30, spacing 5,
  in a window of 200 by 100; and two rows of heights 50 and 80 with no spacing, anchored
  at the second row.
\<close>

definition threeRows :: AbstractListViewPrivate where
  "threeRows = \<lparr>model = fixedRows [50, 80, 30], spacing = 5, firstVisibleRow = 0,
     offset = 0, viewport_width = 200, viewport_height = 100\<rparr>"

definition twoRows :: AbstractListViewPrivate where
  "twoRows = \<lparr>model = fixedRows [50, 80], spacing = 0, firstVisibleRow = 1,
     offset = 0, viewport_width = 200, viewport_height = 60\<rparr>"

text \<open>
  The backward walk as the spec words it: while the offset is positive and an earlier row
  exists, step to the earlier row and subtract the height of that row (the new anchor)
  plus the spacing; at row 0 a positive offset is clamped to 0.
\<close>

function normalizeOffset_reference :: "AbstractListViewPrivate \<Rightarrow> int \<Rightarrow> int \<Rightarrow> int \<Rightarrow> (int \<times> int) option" where
  "normalizeOffset_reference d width row off =
     (if off > 0 \<and> row > 0 then
        (case heightForWidth (model d) (row - 1) width of
           None \<Rightarrow> None
         | Some h \<Rightarrow> normalizeOffset_reference d width (row - 1) (off - (h + spacing d)))
      else if off > 0 then Some (row, 0)
      else Some (row, off))"
  by pat_completeness auto
termination
  by (relation "measure (\<lambda>(d, width, row, off). nat row)") auto

text \<open>
  The three rows after rows 0 and 1 have been removed; five rows of height 10 with the
  anchor at row 3; four rows of height 50; the three rows in a window of height 40; and
  two rows whose heights add up to one more than the greatest \<open>int\<close>.
\<close>

definition oneRowLeft :: AbstractListViewPrivate where
  "oneRowLeft = threeRows\<lparr>model := removeRows (model threeRows) 0 1\<rparr>"

definition fiveRowsView :: AbstractListViewPrivate where
  "fiveRowsView = \<lparr>model = fixedRows [10, 10, 10, 10, 10], spacing = 0, firstVisibleRow = 3,
     offset = 0, viewport_width = 100, viewport_height = 20\<rparr>"

definition fourRows :: AbstractListViewPrivate where
  "fourRows = \<lparr>model = fixedRows [50, 50, 50, 50], spacing = 5, firstVisibleRow = 0,
     offset = 0, viewport_width = 200, viewport_height = 100\<rparr>"

definition lowWindow :: AbstractListViewPrivate where
  "lowWindow = threeRows\<lparr>viewport_height := 40\<rparr>"

definition hugeRows :: AbstractListViewPrivate where
  "hugeRows = \<lparr>model = fixedRows [2147483647, 1], spacing = 0, firstVisibleRow = 0,
     offset = 0, viewport_width = 200, viewport_height = 100\<rparr>"

text \<open>
  The anchor of a view is \<open>-1\<close> or a row of the collection, and \<open>-1\<close> exactly when the
  collection is empty.
\<close>

definition anchorInvariant :: "AbstractListViewPrivate \<Rightarrow> bool" where
  "anchorInvariant d =
     ((firstVisibleRow d = - 1
         \<or> (0 \<le> firstVisibleRow d \<and> firstVisibleRow d \<le> rowCount (model d) - 1))
      \<and> ((firstVisibleRow d = - 1) = (rowCount (model d) = 0)))"

text \<open>
  The invariants of the viewport state after the spec's data model: the anchor is \<open>-1\<close>
  exactly when the collection is empty, and a row of it otherwise; the offset is not
  positive (for an anchor after row 0 by the rule itself, for row 0 so that no blank gap is
  left at the very top); the anchor is not scrolled out of view entirely (its bottom edge,
  spacing included, is below the window's top); and when no later row exists, the anchor
  being the last row, the offset is not below the maximum offset.
\<close>

definition invariants :: "AbstractListViewPrivate \<Rightarrow> bool" where
  "invariants d =
     (anchorInvariant d
      \<and> offset d \<le> 0
      \<and> (case heightForWidth (model d) (firstVisibleRow d)
                 (rect_width (viewport_rect d) - spacing d * 2) of
            None \<Rightarrow> True
          | Some h \<Rightarrow> 0 < offset d + h + spacing d)
      \<and> (if firstVisibleRow d = rowCount (model d) - 1 then
            (case maxOffset d of None \<Rightarrow> False | Some mx \<Rightarrow> mx \<le> offset d)
          else True))"

section \<open>Evaluation rules\<close>

declare maxOffset_loop.simps [simp del] calculateScroll_up.simps [simp del]
  calculateScroll_down.simps [simp del] canScrollDown_loop.simps [simp del]
  normalizeOffset_up.simps [simp del] normalizeOffset_down.simps [simp del]
  calcScrolledAreaSize_loop.simps [simp del] visualRect_loop.simps [simp del]
  updateIfNeeded_loop.simps [simp del] drawListView_loop.simps [simp del]
  normalizeOffset_reference.simps [simp del]

lemmas geometry_defs = mkRect_def nullRect_def rect_x_def rect_y_def rect_width_def
  rect_height_def isNull_def contains_def intersected_def viewport_rect_def

lemmas model_defs = rowCount_def heightForWidth_def fixedRows_def removeRows_def
  in_int_def cpp_int_def

lemmas loop_simps = maxOffset_loop.simps calculateScroll_up.simps
  calculateScroll_down.simps canScrollDown_loop.simps
  normalizeOffset_up.simps normalizeOffset_down.simps
  calcScrolledAreaSize_loop.simps visualRect_loop.simps
  updateIfNeeded_loop.simps rowAt_loop.simps drawListView_loop.simps

lemmas view_defs = maxOffset_def calculateScroll_def canScrollDown_def normalizeOffset_def
  scrollContentsBy_def calcScrolledAreaSize_def visualRect_def updateIfNeeded_def rowAt_def
  scrollTo_def surface_apply_def drawListView_def

section \<open>Offset normalization on concrete views\<close>

text \<open>
  C1. After a pan that makes the offset positive, the source's backward walk subtracts the
  height of the row it leaves, not of the row it moves to: with rows of heights 50 and 80,
  anchored at row 1 with offset 0, a pan by 10 ends at row 0 with offset \<open>-70\<close>, where
  the walk of the spec ends at row 0 with offset \<open>-40\<close>.
\<close>

theorem C1_old_row_height:
  "scrollContentsBy twoRows 0 10 = Some (twoRows\<lparr>firstVisibleRow := 0, offset := - 70\<rparr>)
   \<and> normalizeOffset_reference twoRows (rect_width (viewport_rect twoRows) - spacing twoRows * 2)
        (firstVisibleRow twoRows) (offset twoRows + 10) = Some (0, - 40)"
  by (simp add: twoRows_def view_defs geometry_defs model_defs loop_simps normalizeOffset_reference.simps)

text \<open>
  C2. A forward walk that reaches the last row with the offset still beyond that row's
  extent sets the offset to 0, not to the maximum offset (\<open>-21\<close> here); and a walk that
  ends at the last row within its extent leaves the offset as it is, here \<open>-30\<close>, below
  the maximum offset; so does a pan by the whole scrollable distance, 80, which ends at
  row 1 with offset \<open>-25\<close>.
\<close>

theorem C2_walk_to_last_row:
  "scrollContentsBy threeRows 0 (- 1000) = Some (threeRows\<lparr>firstVisibleRow := 2, offset := 0\<rparr>)
   \<and> scrollContentsBy threeRows 0 (- 170) = Some (threeRows\<lparr>firstVisibleRow := 2, offset := - 30\<rparr>)
   \<and> scrollContentsBy threeRows 0 (- 80) = Some (threeRows\<lparr>firstVisibleRow := 1, offset := - 25\<rparr>)
   \<and> maxOffset threeRows = Some (- 21)
   \<and> maxOffset (threeRows\<lparr>firstVisibleRow := 2, offset := - 30\<rparr>) = Some (- 21)"
  by (simp add: threeRows_def view_defs geometry_defs model_defs loop_simps)


section \<open>The total extent\<close>

lemma rect_width_viewport: "rect_width (viewport_rect d) = viewport_width d"
  by (simp add: geometry_defs)

lemma heightForWidth_nat:
  "j < length m \<Longrightarrow> heightForWidth m (int j) w = Some ((m ! j) w)"
  by (simp add: heightForWidth_def rowCount_def)

text \<open>
  From row \<open>j\<close> on, the loop adds the remaining rows to the running total when all its
  additions stay in range, and has no result otherwise.
\<close>

lemma calcScrolledAreaSize_loop_sum:
  "j \<le> length (model d) \<Longrightarrow>
   calcScrolledAreaSize_loop d w (int j) (rowCount (model d)) acc =
     (if sums_in_int acc (map (\<lambda>row. row w + spacing d) (drop j (model d)))
      then Some (acc + (\<Sum>row\<leftarrow>drop j (model d). row w + spacing d))
      else None)"
proof (induction "length (model d) - j" arbitrary: j acc)
  case 0
  then show ?case
    by (subst calcScrolledAreaSize_loop.simps) (simp add: rowCount_def)
next
  case (Suc k)
  then have lt: "j < length (model d)" by simp
  let ?x = "(model d ! j) w + spacing d"
  have dr: "drop j (model d) = (model d ! j) # drop (Suc j) (model d)"
    using lt by (simp add: Cons_nth_drop_Suc)
  have suc: "int j + 1 = int (Suc j)" by simp
  have ih: "calcScrolledAreaSize_loop d w (int (Suc j)) (rowCount (model d)) (acc + ?x) =
      (if sums_in_int (acc + ?x) (map (\<lambda>row. row w + spacing d) (drop (Suc j) (model d)))
       then Some (acc + ?x + (\<Sum>row\<leftarrow>drop (Suc j) (model d). row w + spacing d))
       else None)"
    using Suc.hyps(2) lt by (intro Suc.hyps(1)) simp_all
  have less: "int j < rowCount (model d)"
    using lt by (simp add: rowCount_def)
  show ?case
  proof (cases "in_int ?x \<and> in_int (acc + ?x)")
    case True
    then have "calcScrolledAreaSize_loop d w (int j) (rowCount (model d)) acc =
        calcScrolledAreaSize_loop d w (int (Suc j)) (rowCount (model d)) (acc + ?x)"
      using less lt
      by (subst calcScrolledAreaSize_loop.simps)
        (simp only: heightForWidth_nat cpp_int_def suc if_True option.case)
    then show ?thesis
      using True ih by (simp add: dr add.assoc)
  next
    case False
    then have "calcScrolledAreaSize_loop d w (int j) (rowCount (model d)) acc = None"
      using less lt
      by (subst calcScrolledAreaSize_loop.simps)
        (auto simp: heightForWidth_nat cpp_int_def)
    then show ?thesis
      using False by (auto simp: dr)
  qed
qed

text \<open>
  With two rows of heights 2147483647 and 1 and no spacing, the spacing plus the sum over
  the rows is 2147483648, which is no \<open>int\<close>: the second addition of the loop overflows, and
  \<open>calcScrolledAreaSize\<close> has no result.
\<close>

theorem C6_total_extent_overflows:
  "calcScrolledAreaSize hugeRows = None
   \<and> spacing hugeRows + (\<Sum>row\<leftarrow>model hugeRows.
        row (viewport_width hugeRows - spacing hugeRows * 2) + spacing hugeRows) = 2147483648
   \<and> \<not> in_int 2147483648"
  by (simp add: hugeRows_def view_defs geometry_defs model_defs loop_simps)

text \<open>
  C6, amended. For every width and every collection, when every \<open>int\<close> that the
  computation forms is in range (twice the spacing, the row width, each row's height plus
  the spacing, and each running total), \<open>calcScrolledAreaSize\<close> gives the viewport's
  width and, as the height, the spacing plus the sum over all rows of the row's height at
  the row width plus the spacing, and no row outside the collection is queried; when one
  of them is out of range, the computation has no result.
\<close>

theorem C6_total_extent_in_range:
  "calcScrolledAreaSize d =
     (if in_int (spacing d * 2) \<and> in_int (viewport_width d - spacing d * 2)
         \<and> sums_in_int (spacing d)
              (map (\<lambda>row. row (viewport_width d - spacing d * 2) + spacing d) (model d))
      then Some (QSize (viewport_width d)
             (spacing d + (\<Sum>row\<leftarrow>model d.
                row (viewport_width d - spacing d * 2) + spacing d)))
      else None)"
  using calcScrolledAreaSize_loop_sum [of 0 d "viewport_width d - spacing d * 2" "spacing d"]
  by (simp add: calcScrolledAreaSize_def rect_width_viewport cpp_int_def Let_def)

text \<open>
  The three rows of the spec's scenario: \<open>5 + 50 + 5 + 80 + 5 + 30 + 5 = 180\<close>.
\<close>

theorem C6_total_extent_in_range_witness:
  "in_int (spacing threeRows * 2)
   \<and> in_int (viewport_width threeRows - spacing threeRows * 2)
   \<and> sums_in_int (spacing threeRows)
        (map (\<lambda>row. row (viewport_width threeRows - spacing threeRows * 2) + spacing threeRows)
           (model threeRows))
   \<and> calcScrolledAreaSize threeRows = Some (QSize 200 180)"
  using C6_total_extent_in_range [of threeRows]
  by (simp add: threeRows_def model_defs)

section \<open>Hit test and queries outside the collection\<close>

text \<open>
  C7. With the first row scrolled 30 pixels above the window, the second row's visible
  rectangle spans the lines 25 to 99 and contains the point \<open>(10, 40)\<close>, not on its
  border; \<open>rowAt\<close> answers "no row" there, because its early exit compares absolute
  values of the walk's position and of the point.
\<close>

theorem C7_hit_test_misses_row:
  "visualRect (threeRows\<lparr>offset := - 30\<rparr>) 1 = Some (QRect 5 25 194 99)
   \<and> contains (QRect 5 25 194 99) (QPoint 10 40)
   \<and> rowAt (threeRows\<lparr>offset := - 30\<rparr>) (QPoint 10 40) = Some (- 1)"
  by (simp add: threeRows_def view_defs geometry_defs model_defs loop_simps)

text \<open>
  C9. \<open>scrollTo\<close> checks the row against the collection and asks for no scroll when it
  is outside; \<open>visualRect\<close> does not: with three rows in a window that shows them all,
  the walk towards row 3 reaches the end of the collection and queries the height of row 3,
  which the collection does not have. The view does so itself when the last of four rows
  has been removed: \<open>rowsRemoved\<close> asks \<open>updateIfNeeded\<close> about row 3.
\<close>

theorem C9_visualRect_queries_past_the_end:
  "rowCount (model threeRows) = 3
   \<and> visualRect (threeRows\<lparr>viewport_height := 500\<rparr>) 3 = None
   \<and> scrollTo (threeRows\<lparr>viewport_height := 500\<rparr>) 3 PositionAtTop = Some NoScroll
   \<and> snd (snd (rowsRemoved (threeRows\<lparr>viewport_height := 500\<rparr>) 3 3)) = None"
  by (simp add: threeRows_def view_defs geometry_defs model_defs loop_simps rowsRemoved_def)

lemma scrollTo_out_of_range:
  "row < 0 \<or> rowCount (model d) \<le> row \<Longrightarrow>
   scrollTo d row hint = Some NoScroll \<and> surface_apply d NoScroll = Some d"
  by (auto simp: scrollTo_def surface_apply_def)

section \<open>Removal of rows\<close>

lemma rowCount_removeRows:
  "0 \<le> first \<Longrightarrow> first \<le> last' \<Longrightarrow> last' < rowCount m \<Longrightarrow>
   rowCount (removeRows m first last') = rowCount m - (last' - first + 1)"
  by (auto simp: rowCount_def removeRows_def min_def)

text \<open>
  After the removal of \<open>first..last\<close>, an index above \<open>last\<close> answers as the index
  \<open>last - first + 1\<close> places further down did before: with the same row, or with no row when
  that index is beyond the collection.
\<close>

lemma heightForWidth_removeRows_above:
  assumes "0 \<le> first" "first \<le> last'" "last' < row"
  shows "heightForWidth (removeRows m first last') row w =
         heightForWidth m (row + (last' - first + 1)) w"
proof (cases "row + (last' - first + 1) < rowCount m")
  case True
  then have inside: "last' < rowCount m" using assms by simp
  have len: "rowCount (removeRows m first last') = rowCount m - (last' - first + 1)"
    using assms inside by (intro rowCount_removeRows) auto
  have a: "length (take (nat first) m) = nat first"
    using assms inside by (simp add: rowCount_def)
  have "(take (nat first) m @ drop (nat (last' + 1)) m) ! nat row
      = drop (nat (last' + 1)) m ! (nat row - nat first)"
    using assms a by (simp add: nth_append)
  also have "\<dots> = m ! (nat (last' + 1) + (nat row - nat first))"
    using assms inside by (simp add: rowCount_def)
  also have "nat (last' + 1) + (nat row - nat first) = nat (row + (last' - first + 1))"
    using assms by simp
  finally have "removeRows m first last' ! nat row = m ! nat (row + (last' - first + 1))"
    by (simp add: removeRows_def)
  then show ?thesis
    using assms len True by (simp add: heightForWidth_def)
next
  case False
  have "rowCount (removeRows m first last') \<le> row"
    using assms False by (auto simp: rowCount_def removeRows_def min_def)
  then show ?thesis
    using False by (simp add: heightForWidth_def)
qed

lemma rowsRemoved_anchor_inside:
  assumes "first \<le> firstVisibleRow d" "firstVisibleRow d \<le> last'"
  shows "fst (rowsRemoved d first last') =
     (if rowCount (model d) = 0 then d\<lparr>firstVisibleRow := - 1, offset := 0\<rparr>
      else if 0 < first then d\<lparr>firstVisibleRow := first - 1, offset := 0\<rparr>
      else d\<lparr>firstVisibleRow := last' + 1, offset := 0\<rparr>)"
  using assms by (simp add: rowsRemoved_def Let_def)

text \<open>
  C5. After the rows 0 and 1 of three have been removed, with the anchor at row 0, one row
  is left; \<open>rowsRemoved\<close> re-anchors to \<open>last + 1 = 2\<close>, the index the following row
  had before the removal, and does not clamp it to the collection.
\<close>

theorem C5_stale_index_after_removal:
  "rowCount (model oneRowLeft) = 1
   \<and> firstVisibleRow (fst (rowsRemoved oneRowLeft 0 1)) = 2
   \<and> offset (fst (rowsRemoved oneRowLeft 0 1)) = 0"
  by (simp add: oneRowLeft_def threeRows_def rowsRemoved_def model_defs Let_def)

text \<open>
  C10. A removal of \<open>first..last\<close> that does not contain the anchor leaves the view's
  state, so the anchor and the offset, as they were. In particular, when the rows removed
  lie above the anchor, the anchor's index is not renumbered: it answers as the index
  \<open>last - first + 1\<close> places further down did before the removal, so it denotes that
  row, or no row when the collection has become too short.
\<close>

theorem C10_removal_outside_anchor:
  "(firstVisibleRow d < first \<or> last' < firstVisibleRow d
      \<longrightarrow> fst (rowsRemoved d first last') = d)
   \<and> (0 \<le> first \<and> first \<le> last' \<and> last' < firstVisibleRow d
        \<and> model d = removeRows m0 first last'
      \<longrightarrow> heightForWidth (model (fst (rowsRemoved d first last')))
            (firstVisibleRow (fst (rowsRemoved d first last'))) w =
          heightForWidth m0 (firstVisibleRow d + (last' - first + 1)) w)"
proof -
  have frame: "fst (rowsRemoved d first last') = d"
    if "firstVisibleRow d < first \<or> last' < firstVisibleRow d"
    using that by (auto simp: rowsRemoved_def Let_def)
  show ?thesis
    using frame heightForWidth_removeRows_above [of first last' "firstVisibleRow d" m0 w]
    by auto
qed

text \<open>
  The second of three rows as the anchor, the first row removed: the state is unchanged,
  and row 1 is now the row of height 30, where it was the row of height 80. And the fourth
  of five rows as the anchor, the first two rows removed: the state is unchanged, and row 3
  is no row of the three that are left.
\<close>

theorem C10_removal_outside_anchor_witness:
  "fst (rowsRemoved (threeRows\<lparr>model := removeRows (model threeRows) 0 0, firstVisibleRow := 1\<rparr>) 0 0)
       = threeRows\<lparr>model := removeRows (model threeRows) 0 0, firstVisibleRow := 1\<rparr>
   \<and> heightForWidth (model threeRows) 1 190 = Some 80
   \<and> heightForWidth (model (fst (rowsRemoved (threeRows\<lparr>model := removeRows (model threeRows) 0 0, firstVisibleRow := 1\<rparr>) 0 0)))
        (firstVisibleRow (fst (rowsRemoved (threeRows\<lparr>model := removeRows (model threeRows) 0 0, firstVisibleRow := 1\<rparr>) 0 0))) 190
       = Some 30
   \<and> fst (rowsRemoved (fiveRowsView\<lparr>model := removeRows (model fiveRowsView) 0 1\<rparr>) 0 1)
       = fiveRowsView\<lparr>model := removeRows (model fiveRowsView) 0 1\<rparr>
   \<and> heightForWidth (model fiveRowsView) 3 100 = Some 10
   \<and> heightForWidth (model (fst (rowsRemoved (fiveRowsView\<lparr>model := removeRows (model fiveRowsView) 0 1\<rparr>) 0 1)))
        (firstVisibleRow (fst (rowsRemoved (fiveRowsView\<lparr>model := removeRows (model fiveRowsView) 0 1\<rparr>) 0 1))) 100
       = None"
  using C10_removal_outside_anchor
    [of "threeRows\<lparr>model := removeRows (model threeRows) 0 0, firstVisibleRow := 1\<rparr>" 0 0
        "model threeRows" 190]
    C10_removal_outside_anchor
    [of "fiveRowsView\<lparr>model := removeRows (model fiveRowsView) 0 1\<rparr>" 0 1
        "model fiveRowsView" 100]
  by (simp add: threeRows_def fiveRowsView_def model_defs)

section \<open>The anchor across notifications\<close>

text \<open>
  A removal above the anchor leaves the anchor's index as it is: with five rows, the anchor
  at row 3 and rows 0 and 1 removed, three rows are left and the anchor is still 3. And a
  reset sets the anchor to \<open>-1\<close> whatever the collection holds after it: with the three
  rows still there, the anchor is \<open>-1\<close> and the collection is not empty.
\<close>

theorem C3_anchor_left_out_of_range:
  "anchorInvariant fiveRowsView
   \<and> rowCount (removeRows (model fiveRowsView) 0 1) = 3
   \<and> firstVisibleRow (fst (rowsRemoved
         (fiveRowsView\<lparr>model := removeRows (model fiveRowsView) 0 1\<rparr>) 0 1)) = 3
   \<and> \<not> anchorInvariant (fst (rowsRemoved
         (fiveRowsView\<lparr>model := removeRows (model fiveRowsView) 0 1\<rparr>) 0 1))
   \<and> anchorInvariant threeRows
   \<and> rowCount (model threeRows) = 3
   \<and> firstVisibleRow (fst (modelReset threeRows)) = - 1
   \<and> \<not> anchorInvariant (fst (modelReset threeRows))"
  by (simp add: fiveRowsView_def threeRows_def anchorInvariant_def rowsRemoved_def
      modelReset_def model_defs Let_def)

text \<open>
  C3, amended. From a state whose anchor is valid for the collection before the change
  (\<open>-1\<close> or a row of it, and \<open>-1\<close> exactly when it is empty), the anchor is valid for
  the collection after the change: after a reset, exactly when the collection is then
  empty (the anchor is \<open>-1\<close>); after rows were inserted (the collection has grown), moved
  or changed (its length is the same); after a removal of rows \<open>first..last\<close> that it
  had, with the anchor below \<open>first\<close>, or inside the range with \<open>first > 0\<close> or with no
  row left; and after a removal above the anchor, which leaves the index as it is, exactly
  when that index is still below the new count.
\<close>

theorem C3_reconciliation_keeps_anchor:
  assumes "anchorInvariant d0"
  shows "firstVisibleRow (fst (modelReset (d0\<lparr>model := m\<rparr>))) = - 1
   \<and> anchorInvariant (fst (modelReset (d0\<lparr>model := m\<rparr>))) = (rowCount m = 0)
   \<and> (rowCount (model d0) < rowCount m
        \<longrightarrow> anchorInvariant (fst (rowsInserted (d0\<lparr>model := m\<rparr>) first last')))
   \<and> (0 \<le> first \<and> first \<le> last' \<and> last' < rowCount (model d0)
        \<and> (firstVisibleRow d0 < first
            \<or> (firstVisibleRow d0 \<le> last'
                \<and> (0 < first \<or> rowCount (removeRows (model d0) first last') = 0)))
        \<longrightarrow> anchorInvariant (fst (rowsRemoved
              (d0\<lparr>model := removeRows (model d0) first last'\<rparr>) first last')))
   \<and> (0 \<le> first \<and> first \<le> last' \<and> last' < firstVisibleRow d0
        \<longrightarrow> anchorInvariant (fst (rowsRemoved
              (d0\<lparr>model := removeRows (model d0) first last'\<rparr>) first last'))
            = (firstVisibleRow d0 < rowCount (removeRows (model d0) first last')))
   \<and> (rowCount m = rowCount (model d0)
        \<longrightarrow> anchorInvariant (fst (rowsMoved (d0\<lparr>model := m\<rparr>) sourceStart sourceEnd
              destinationRow)))
   \<and> (rowCount m = rowCount (model d0)
        \<longrightarrow> anchorInvariant (fst (dataChanged (d0\<lparr>model := m\<rparr>) first last')))"
proof -
  have reset: "firstVisibleRow (fst (modelReset (d0\<lparr>model := m\<rparr>))) = - 1"
    by (simp add: modelReset_def Let_def)
  have reset_inv: "anchorInvariant (fst (modelReset (d0\<lparr>model := m\<rparr>))) = (rowCount m = 0)"
    by (simp add: modelReset_def Let_def anchorInvariant_def)
  have inserted: "anchorInvariant (fst (rowsInserted (d0\<lparr>model := m\<rparr>) first last'))"
    if "rowCount (model d0) < rowCount m"
    using that assms by (auto simp: rowsInserted_def Let_def anchorInvariant_def rowCount_def)
  have removed: "anchorInvariant (fst (rowsRemoved
        (d0\<lparr>model := removeRows (model d0) first last'\<rparr>) first last'))"
    if r: "0 \<le> first" "first \<le> last'" "last' < rowCount (model d0)"
      and c: "firstVisibleRow d0 < first
            \<or> (firstVisibleRow d0 \<le> last'
                \<and> (0 < first \<or> rowCount (removeRows (model d0) first last') = 0))"
  proof -
    have n: "rowCount (removeRows (model d0) first last')
        = rowCount (model d0) - (last' - first + 1)"
      using r by (rule rowCount_removeRows)
    show ?thesis
      using r c assms unfolding rowsRemoved_def Let_def anchorInvariant_def
      by (auto simp: n)
  qed
  have above: "anchorInvariant (fst (rowsRemoved
        (d0\<lparr>model := removeRows (model d0) first last'\<rparr>) first last'))
      = (firstVisibleRow d0 < rowCount (removeRows (model d0) first last'))"
    if "0 \<le> first" "first \<le> last'" "last' < firstVisibleRow d0"
    using that unfolding rowsRemoved_def Let_def anchorInvariant_def
    by (auto simp: rowCount_def)
  have moved: "anchorInvariant (fst (rowsMoved (d0\<lparr>model := m\<rparr>) sourceStart sourceEnd
        destinationRow))" if "rowCount m = rowCount (model d0)"
    using that assms by (auto simp: rowsMoved_def Let_def anchorInvariant_def)
  have changed: "anchorInvariant (fst (dataChanged (d0\<lparr>model := m\<rparr>) first last'))"
    if "rowCount m = rowCount (model d0)"
    using that assms by (auto simp: dataChanged_def anchorInvariant_def)
  show ?thesis
    using reset reset_inv inserted removed above moved changed by blast
qed

text \<open>
  The three rows in a window of height 40: a reset to the empty collection; a fourth row
  inserted; rows 1 and 2 removed with the anchor at row 0, and with the anchor at row 2; a
  move and a change of data. And the five rows with the anchor at row 3 and row 0 removed:
  the index 3 is still a row of the four that are left. Each slot answers whether to
  repaint without a query outside the collection.
\<close>

theorem C3_reconciliation_keeps_anchor_witness:
  "anchorInvariant lowWindow \<and> anchorInvariant (lowWindow\<lparr>firstVisibleRow := 2\<rparr>)
   \<and> anchorInvariant fiveRowsView
   \<and> anchorInvariant (fst (modelReset (lowWindow\<lparr>model := []\<rparr>)))
   \<and> anchorInvariant (fst (rowsInserted
         (lowWindow\<lparr>model := fixedRows [50, 80, 30, 20]\<rparr>) 3 3))
   \<and> snd (snd (rowsInserted (lowWindow\<lparr>model := fixedRows [50, 80, 30, 20]\<rparr>) 3 3))
       = Some False
   \<and> firstVisibleRow (fst (rowsRemoved
         (lowWindow\<lparr>model := removeRows (model lowWindow) 1 2\<rparr>) 1 2)) = 0
   \<and> anchorInvariant (fst (rowsRemoved
         (lowWindow\<lparr>model := removeRows (model lowWindow) 1 2\<rparr>) 1 2))
   \<and> snd (snd (rowsRemoved (lowWindow\<lparr>model := removeRows (model lowWindow) 1 2\<rparr>) 1 2))
       = Some False
   \<and> firstVisibleRow (fst (rowsRemoved
         (lowWindow\<lparr>firstVisibleRow := 2, model := removeRows (model lowWindow) 1 2\<rparr>) 1 2)) = 0
   \<and> anchorInvariant (fst (rowsRemoved
         (lowWindow\<lparr>firstVisibleRow := 2, model := removeRows (model lowWindow) 1 2\<rparr>) 1 2))
   \<and> snd (snd (rowsRemoved
         (lowWindow\<lparr>firstVisibleRow := 2, model := removeRows (model lowWindow) 1 2\<rparr>) 1 2))
       = Some False
   \<and> firstVisibleRow (fst (rowsRemoved
         (fiveRowsView\<lparr>model := removeRows (model fiveRowsView) 0 0\<rparr>) 0 0)) = 3
   \<and> rowCount (removeRows (model fiveRowsView) 0 0) = 4
   \<and> anchorInvariant (fst (rowsRemoved
         (fiveRowsView\<lparr>model := removeRows (model fiveRowsView) 0 0\<rparr>) 0 0))
   \<and> snd (snd (rowsRemoved (fiveRowsView\<lparr>model := removeRows (model fiveRowsView) 0 0\<rparr>) 0 0))
       = Some False
   \<and> anchorInvariant (fst (rowsMoved (lowWindow\<lparr>model := fixedRows [80, 50, 30]\<rparr>) 0 0 1))
   \<and> snd (rowsMoved (lowWindow\<lparr>model := fixedRows [80, 50, 30]\<rparr>) 0 0 1) = Some True
   \<and> anchorInvariant (fst (dataChanged (lowWindow\<lparr>model := fixedRows [50, 90, 30]\<rparr>) 1 1))
   \<and> snd (dataChanged (lowWindow\<lparr>model := fixedRows [50, 90, 30]\<rparr>) 1 1) = Some False"
proof -
  have a: "anchorInvariant lowWindow"
    by (simp add: anchorInvariant_def lowWindow_def threeRows_def model_defs)
  have b: "anchorInvariant (lowWindow\<lparr>firstVisibleRow := 2\<rparr>)"
    by (simp add: anchorInvariant_def lowWindow_def threeRows_def model_defs)
  have c: "anchorInvariant fiveRowsView"
    by (simp add: anchorInvariant_def fiveRowsView_def model_defs)
  have repaint:
    "snd (snd (rowsInserted (lowWindow\<lparr>model := fixedRows [50, 80, 30, 20]\<rparr>) 3 3))
       = Some False"
    "snd (snd (rowsRemoved (lowWindow\<lparr>model := removeRows (model lowWindow) 1 2\<rparr>) 1 2))
       = Some False"
    "snd (snd (rowsRemoved
         (lowWindow\<lparr>firstVisibleRow := 2, model := removeRows (model lowWindow) 1 2\<rparr>) 1 2))
       = Some False"
    "snd (snd (rowsRemoved (fiveRowsView\<lparr>model := removeRows (model fiveRowsView) 0 0\<rparr>) 0 0))
       = Some False"
    "snd (rowsMoved (lowWindow\<lparr>model := fixedRows [80, 50, 30]\<rparr>) 0 0 1) = Some True"
    "snd (dataChanged (lowWindow\<lparr>model := fixedRows [50, 90, 30]\<rparr>) 1 1) = Some False"
    by (simp_all add: lowWindow_def threeRows_def fiveRowsView_def rowsInserted_def
        rowsRemoved_def rowsMoved_def dataChanged_def view_defs geometry_defs model_defs
        loop_simps Let_def)
  show ?thesis
    using a b c repaint
      C3_reconciliation_keeps_anchor [OF a, of "[]" 0 0 0 0 0]
      C3_reconciliation_keeps_anchor [OF a, of "fixedRows [50, 80, 30, 20]" 3 3 0 0 0]
      C3_reconciliation_keeps_anchor [OF a, of "[]" 1 2 0 0 0]
      C3_reconciliation_keeps_anchor [OF b, of "[]" 1 2 0 0 0]
      C3_reconciliation_keeps_anchor [OF c, of "[]" 0 0 0 0 0]
      C3_reconciliation_keeps_anchor [OF a, of "fixedRows [80, 50, 30]" 0 0 0 0 1]
      C3_reconciliation_keeps_anchor [OF a, of "fixedRows [50, 90, 30]" 1 1 0 0 1]
    by (simp add: lowWindow_def threeRows_def fiveRowsView_def model_defs rowsRemoved_def Let_def)
qed

section \<open>Normalizing a normalized state\<close>

text \<open>
  C8. From the top of the three rows, a pan by the whole scrollable distance, 80, is
  normalized to row 1 with offset \<open>-25\<close>. That state satisfies the invariants: the anchor
  is a row, the offset is not positive, row 1 (80 high) is still in view, and a later row
  exists. A pan by 0 does not leave it as it is: no row is left below the window, and the
  offset is clamped to the maximum offset, \<open>-21\<close>.
\<close>

theorem C8_normalizer_moves_its_own_result:
  "scrollContentsBy threeRows 0 (- 80) = Some (threeRows\<lparr>firstVisibleRow := 1, offset := - 25\<rparr>)
   \<and> invariants (threeRows\<lparr>firstVisibleRow := 1, offset := - 25\<rparr>)
   \<and> scrollContentsBy (threeRows\<lparr>firstVisibleRow := 1, offset := - 25\<rparr>) 0 0
       = Some (threeRows\<lparr>firstVisibleRow := 1, offset := - 21\<rparr>)"
  by (simp add: threeRows_def invariants_def anchorInvariant_def view_defs geometry_defs
      model_defs loop_simps)

section \<open>Scrolling a row to the top\<close>

text \<open>
  C4. With four rows of height 50, spacing 5 and a window of 200 by 100, \<open>scrollTo\<close> of
  row 1 with \<open>PositionAtTop\<close> asks for a move by \<open>-56\<close>: the target offset is \<open>-1\<close>.
  Rows are left below the window before and after, so nothing is clamped, and the state
  settles at row 1 with offset \<open>-1\<close>. The top edge of the row's visible rectangle is then
  the window's top, 0, not the top plus the spacing, 5: \<open>visualRect\<close> starts at the offset
  and does not add the spacing, also with the offset 0, while the viewport draws the row at
  the offset plus the spacing, here at 4.
\<close>

theorem C4_top_edge_without_spacing:
  "scrollTo fourRows 1 PositionAtTop = Some (MoveShownAreaBy (- 56))
   \<and> surface_apply fourRows (MoveShownAreaBy (- 56))
       = Some (fourRows\<lparr>firstVisibleRow := 1, offset := - 1\<rparr>)
   \<and> canScrollDown fourRows 0 = Some True
   \<and> canScrollDown (fourRows\<lparr>firstVisibleRow := 1, offset := - 1\<rparr>) 1 = Some True
   \<and> visualRect (fourRows\<lparr>firstVisibleRow := 1, offset := - 1\<rparr>) 1 = Some (QRect 5 0 194 48)
   \<and> rect_y (QRect 5 0 194 48) \<noteq> rect_y (viewport_rect fourRows) + spacing fourRows
   \<and> visualRect (fourRows\<lparr>firstVisibleRow := 1\<rparr>) 1 = Some (QRect 5 0 194 49)
   \<and> map_option hd (drawListView (fourRows\<lparr>firstVisibleRow := 1, offset := - 1\<rparr>))
       = Some (1, QRect 5 4 194 53)"
  by (simp add: fourRows_def view_defs geometry_defs model_defs loop_simps)

end
